theory Spec2Isabelle
  imports Main
begin

section \<open>Values exchanged with the platform\<close>

text \<open>
  The request pipeline (\<^verbatim>\<open>src/frontend/src/lib/api.ts\<close>) and the session hook
  (\<^verbatim>\<open>src/frontend/src/hooks/useAuth.ts\<close>, \<^verbatim>\<open>src/frontend/src/lib/auth.ts\<close>) are
  embedded here. What the browser provides (\<^verbatim>\<open>fetch\<close>, \<^verbatim>\<open>localStorage\<close>, \<^verbatim>\<open>JSON\<close>,
  \<^verbatim>\<open>Headers\<close>) is modelled as far as the code observes it.

  A parsed JSON body. A number is given by the text that \<^verbatim>\<open>String(n)\<close> yields for it
  (\<^verbatim>\<open>42\<close>, \<^verbatim>\<open>-1.5\<close>, \<^verbatim>\<open>1e+21\<close>, \<^verbatim>\<open>Infinity\<close>), which is all the code observes of a
  number besides its truthiness; both zeros have the text \<^verbatim>\<open>0\<close>. A string is the list
  of its code units, which are below \<^verbatim>\<open>0x100\<close> here. An object is the list of its
  properties in enumeration order, with distinct keys.
\<close>

datatype json =
    JNull
  | JBool bool
  | JNum string
  | JStr string
  | JArr "json list"
  | JObj "(string \<times> json) list"

text \<open>
  Thrown values. Everything the pipeline throws or catches is an error object: its
  constructor and its \<^verbatim>\<open>message\<close>. \<open>AbortError\<close> is the \<^verbatim>\<open>DOMException\<close> with which
  \<^verbatim>\<open>fetch\<close> rejects once its signal is aborted.
\<close>

datatype js_class = Error | TypeError | SyntaxError | AbortError

datatype js_error = JsError (err_class: js_class) (err_message: string)

text \<open>JavaScript truthiness (\<^verbatim>\<open>!!v\<close>) of a JSON value.\<close>

fun truthy :: "json \<Rightarrow> bool" where
  "truthy JNull = False"
| "truthy (JBool b) = b"
| "truthy (JNum t) = (t \<noteq> ''0'' \<and> t \<noteq> ''NaN'')"
| "truthy (JStr s) = (s \<noteq> [])"
| "truthy (JArr xs) = True"
| "truthy (JObj kvs) = True"

text \<open>The decimal digits of an array index, as \<^verbatim>\<open>Object.keys\<close> names it.\<close>

definition digit_char :: "nat \<Rightarrow> char" where
  "digit_char d = ''0123456789'' ! d"

fun digits :: "nat \<Rightarrow> string" where
  "digits n = (if n < 10 then [digit_char n] else digits (n div 10) @ [digit_char (n mod 10)])"

declare digits.simps [simp del]

text \<open>
  \<^verbatim>\<open>Object.keys(v)\<close> for a non-null value: the property names of an object, the indices of
  an array or of a string, nothing for a number or a boolean. (On \<^verbatim>\<open>null\<close> it would throw;
  the code only calls it behind \<^verbatim>\<open>data &&\<close>, so that case is never consulted.)
\<close>

fun Object_keys :: "json \<Rightarrow> string list" where
  "Object_keys (JObj kvs) = map fst kvs"
| "Object_keys (JArr xs) = map digits [0..<length xs]"
| "Object_keys (JStr s) = map digits [0..<length s]"
| "Object_keys v = []"

text \<open>
  Reading \<^verbatim>\<open>v.message\<close>: a \<^verbatim>\<open>TypeError\<close> on \<^verbatim>\<open>null\<close>, the property of an object when it has
  one, \<^verbatim>\<open>undefined\<close> (\<open>None\<close>) otherwise. The text of the \<^verbatim>\<open>TypeError\<close> is the engine's.
\<close>

definition null_read_message :: string where
  "null_read_message = ''Cannot read properties of null (reading 'message')''"

fun get_message :: "json \<Rightarrow> js_error + json option" where
  "get_message JNull = Inl (JsError TypeError null_read_message)"
| "get_message (JObj kvs) = Inr (map_of kvs ''message'')"
| "get_message v = Inr None"

text \<open>
  \<^verbatim>\<open>JSON.stringify\<close> on a parsed JSON value: the compact text. A finite number prints as
  \<^verbatim>\<open>String(n)\<close>, an infinite one (\<^verbatim>\<open>JSON.parse\<close> of \<^verbatim>\<open>1e999\<close>) as \<^verbatim>\<open>null\<close>.
\<close>

definition hex_char :: "nat \<Rightarrow> char" where
  "hex_char d = ''0123456789abcdef'' ! d"

definition escape_char :: "char \<Rightarrow> string" where
  "escape_char c =
     (if c = CHR 0x22 then [CHR 0x5C, CHR 0x22]
      else if c = CHR 0x5C then [CHR 0x5C, CHR 0x5C]
      else if c = CHR 0x08 then [CHR 0x5C, CHR ''b'']
      else if c = CHR 0x0C then [CHR 0x5C, CHR ''f'']
      else if c = CHR 0x0A then [CHR 0x5C, CHR ''n'']
      else if c = CHR 0x0D then [CHR 0x5C, CHR ''r'']
      else if c = CHR 0x09 then [CHR 0x5C, CHR ''t'']
      else if (of_char c :: nat) < 32
        then [CHR 0x5C, CHR ''u'', CHR ''0'', CHR ''0'',
              hex_char (of_char c div 16), hex_char (of_char c mod 16)]
      else [c])"

definition quote :: "string \<Rightarrow> string" where
  "quote s = CHR 0x22 # concat (map escape_char s) @ [CHR 0x22]"

fun JSON_stringify :: "json \<Rightarrow> string"
  and stringify_items :: "json list \<Rightarrow> string"
  and stringify_members :: "(string \<times> json) list \<Rightarrow> string" where
  "JSON_stringify JNull = ''null''"
| "JSON_stringify (JBool b) = (if b then ''true'' else ''false'')"
| "JSON_stringify (JNum t) =
     (if t = ''Infinity'' \<or> t = ''-Infinity'' \<or> t = ''NaN'' then ''null'' else t)"
| "JSON_stringify (JStr s) = quote s"
| "JSON_stringify (JArr xs) = ''['' @ stringify_items xs @ '']''"
| "JSON_stringify (JObj kvs) = ''{'' @ stringify_members kvs @ ''}''"
| "stringify_items [] = []"
| "stringify_items [x] = JSON_stringify x"
| "stringify_items (x # y # ys) = JSON_stringify x @ '','' @ stringify_items (y # ys)"
| "stringify_members [] = []"
| "stringify_members [(k, v)] = quote k @ '':'' @ JSON_stringify v"
| "stringify_members ((k, v) # m # ms) =
     quote k @ '':'' @ JSON_stringify v @ '','' @ stringify_members (m # ms)"

text \<open>
  \<^verbatim>\<open>String(v)\<close>, which \<^verbatim>\<open>new Error(v)\<close> applies to its argument: an array joins its
  elements with commas (\<^verbatim>\<open>null\<close> printing as nothing), an object prints as
  \<^verbatim>\<open>[object Object]\<close>.
\<close>

fun ToString :: "json \<Rightarrow> string"
  and join_items :: "json list \<Rightarrow> string"
  and join_item :: "json \<Rightarrow> string" where
  "ToString JNull = ''null''"
| "ToString (JBool b) = (if b then ''true'' else ''false'')"
| "ToString (JNum t) = t"
| "ToString (JStr s) = s"
| "ToString (JArr xs) = join_items xs"
| "ToString (JObj kvs) = ''[object Object]''"
| "join_items [] = []"
| "join_items [x] = join_item x"
| "join_items (x # y # ys) = join_item x @ '','' @ join_items (y # ys)"
| "join_item JNull = []"
| "join_item (JBool b) = ToString (JBool b)"
| "join_item (JNum t) = ToString (JNum t)"
| "join_item (JStr s) = ToString (JStr s)"
| "join_item (JArr xs) = ToString (JArr xs)"
| "join_item (JObj kvs) = ToString (JObj kvs)"

section \<open>Response normalisation\<close>

text \<open>
  A \<^verbatim>\<open>Response\<close> as \<^verbatim>\<open>handleResponse\<close> sees it: the status, and what
  \<^verbatim>\<open>await response.json()\<close> yields: the parsed body, or a \<^verbatim>\<open>SyntaxError\<close> (with the
  engine's text) when the body is not JSON. \<^verbatim>\<open>response.ok\<close> is the platform's read-only
  property: the status lies in 200..299.
\<close>

datatype body = NotJson string | Json json

record Response =
  status :: nat
  json_body :: body

definition ok :: "Response \<Rightarrow> bool" where
  "ok r = (200 \<le> status r \<and> status r \<le> 299)"

text \<open>\<^verbatim>\<open>ApiResponse<T>\<close> of the types module: \<^verbatim>\<open>{ data, status, message? }\<close>.\<close>

datatype ApiResponse = ApiResponse (data: json) (res_status: nat) (message: "json option")

text \<open>
  \<^verbatim>\<open>handleResponse\<close> (api.ts, lines 8-26). \<open>Inl\<close> is the thrown value. The argument of
  \<^verbatim>\<open>new Error(data.message || 'An error occurred')\<close> is evaluated first, so reading
  \<^verbatim>\<open>message\<close> of \<^verbatim>\<open>null\<close> throws before any \<^verbatim>\<open>Error\<close> is built.
\<close>

definition handleResponse :: "Response \<Rightarrow> js_error + ApiResponse" where
  "handleResponse response =
     (case json_body response of
        NotJson m \<Rightarrow> Inl (JsError SyntaxError m)
      | Json d \<Rightarrow>
          if \<not> ok response then
            (if truthy d \<and> length (Object_keys d) > 0
             then Inl (JsError Error (JSON_stringify d))
             else (case get_message d of
                     Inl e \<Rightarrow> Inl e
                   | Inr None \<Rightarrow> Inl (JsError Error ''An error occurred'')
                   | Inr (Some m) \<Rightarrow>
                       Inl (JsError Error
                              (if truthy m then ToString m else ''An error occurred''))))
          else (case get_message d of
                  Inl e \<Rightarrow> Inl e
                | Inr m \<Rightarrow> Inr (ApiResponse d (status response) m)))"

section \<open>Building the headers\<close>

text \<open>
  A plain object is the list of its properties. Writing a property replaces the value of
  an existing key in place and appends a new key; the spread \<^verbatim>\<open>{...a, ...b}\<close> writes the
  properties of \<open>b\<close> in order.
\<close>

fun set_prop :: "string \<Rightarrow> 'v \<Rightarrow> (string \<times> 'v) list \<Rightarrow> (string \<times> 'v) list" where
  "set_prop k v [] = [(k, v)]"
| "set_prop k v ((k', v') # ps) = (if k = k' then (k, v) # ps else (k', v') # set_prop k v ps)"

definition spread :: "(string \<times> 'v) list \<Rightarrow> (string \<times> 'v) list \<Rightarrow> (string \<times> 'v) list" where
  "spread obj src = fold (\<lambda>(k, v). set_prop k v) src obj"

text \<open>
  \<^verbatim>\<open>Headers\<close>, after the Fetch standard. Appending a header strips the HTTP whitespace
  (tab, line feed, carriage return, space) from both ends of the value, then throws a
  \<^verbatim>\<open>TypeError\<close> (with the engine's text) unless the name is a token and the stripped value
  holds no NUL, line feed or carriage return. Names are case-insensitive and kept in lower
  case here; the values appended to one name are combined with a comma, as \<^verbatim>\<open>get\<close>
  returns them. Entries stand in insertion order.
\<close>

type_synonym Headers = "(string \<times> string) list"

definition lower_char :: "char \<Rightarrow> char" where
  "lower_char c =
     (case map_of (zip ''ABCDEFGHIJKLMNOPQRSTUVWXYZ'' ''abcdefghijklmnopqrstuvwxyz'') c of
        Some l \<Rightarrow> l
      | None \<Rightarrow> c)"

definition lowercase :: "string \<Rightarrow> string" where
  "lowercase s = map lower_char s"

definition is_http_whitespace :: "char \<Rightarrow> bool" where
  "is_http_whitespace c = (c = CHR 0x09 \<or> c = CHR 0x0A \<or> c = CHR 0x0D \<or> c = CHR 0x20)"

definition normalize_value :: "string \<Rightarrow> string" where
  "normalize_value v =
     rev (dropWhile is_http_whitespace (rev (dropWhile is_http_whitespace v)))"

definition is_tchar :: "char \<Rightarrow> bool" where
  "is_tchar c =
     (c \<in> set (''!#$%&*+-.^_`|~0123456789''
               @ ''abcdefghijklmnopqrstuvwxyz'' @ ''ABCDEFGHIJKLMNOPQRSTUVWXYZ'')
      \<or> c = CHR 0x27)"

definition valid_name :: "string \<Rightarrow> bool" where
  "valid_name k = (k \<noteq> [] \<and> list_all is_tchar k)"

definition valid_value :: "string \<Rightarrow> bool" where
  "valid_value v = list_all (\<lambda>c. c \<noteq> CHR 0x00 \<and> c \<noteq> CHR 0x0A \<and> c \<noteq> CHR 0x0D) v"

definition invalid_name_message :: string where
  "invalid_name_message = ''Failed to construct 'Headers': Invalid name''"

definition invalid_value_message :: string where
  "invalid_value_message = ''Failed to construct 'Headers': Invalid value''"

text \<open>The header list: a further value for a name already present joins the earlier ones.\<close>

fun combine :: "string \<Rightarrow> string \<Rightarrow> Headers \<Rightarrow> Headers" where
  "combine k v [] = [(k, v)]"
| "combine k v ((k', v') # hs) =
     (if k = k' then (k', v' @ '', '' @ v) # hs else (k', v') # combine k v hs)"

definition Headers_append :: "string \<Rightarrow> string \<Rightarrow> Headers \<Rightarrow> js_error + Headers" where
  "Headers_append k v hs =
     (let v' = normalize_value v in
      if \<not> valid_name k then Inl (JsError TypeError invalid_name_message)
      else if \<not> valid_value v' then Inl (JsError TypeError invalid_value_message)
      else Inr (combine (lowercase k) v' hs))"

text \<open>\<^verbatim>\<open>new Headers(obj)\<close> appends the properties of \<open>obj\<close> in order and throws at the first
  one that is not valid.\<close>

fun fill :: "(string \<times> string) list \<Rightarrow> Headers \<Rightarrow> js_error + Headers" where
  "fill [] hs = Inr hs"
| "fill ((k, v) # ps) hs =
     (case Headers_append k v hs of Inl e \<Rightarrow> Inl e | Inr hs' \<Rightarrow> fill ps hs')"

definition new_Headers :: "(string \<times> string) list \<Rightarrow> js_error + Headers" where
  "new_Headers obj = fill obj []"

definition Headers_delete :: "string \<Rightarrow> Headers \<Rightarrow> Headers" where
  "Headers_delete k hs = filter (\<lambda>(k', v). k' \<noteq> lowercase k) hs"

definition Headers_get :: "string \<Rightarrow> Headers \<Rightarrow> string option" where
  "Headers_get k hs = map_of hs (lowercase k)"

text \<open>
  The options of a call, as far as the pipeline itself reads them (the URL and the method
  go to the transport unchanged). \<open>None\<close> is an option left \<^verbatim>\<open>undefined\<close>. The retry
  count is an integer, negative ones included; the caller's headers are a plain object
  whose property names are not array indices, empty when the option is absent.
\<close>

datatype request_body = NoBody | TextBody string | FormData

record RequestOptions =
  timeout :: "nat option"
  retries :: "int option"
  headers :: "(string \<times> string) list"
  body :: request_body

definition REQUEST_TIMEOUT :: nat where "REQUEST_TIMEOUT = 30000"
definition MAX_RETRIES :: int where "MAX_RETRIES = 3"
definition RETRY_DELAY :: nat where "RETRY_DELAY = 1000"

text \<open>
  api.ts, lines 55-65: \<open>tok\<close> is what \<^verbatim>\<open>localStorage.getItem('token')\<close> returned
  (\<open>None\<close> for \<^verbatim>\<open>null\<close>). \<^verbatim>\<open>token && {...}\<close> contributes a property only for a truthy
  token, that is a non-empty string. \<open>Inl\<close> is the \<^verbatim>\<open>TypeError\<close> that \<^verbatim>\<open>new Headers\<close>
  throws.
\<close>

definition bearer :: "string option \<Rightarrow> (string \<times> string) list" where
  "bearer tok = (case tok of
                   None \<Rightarrow> []
                 | Some t \<Rightarrow> if t \<noteq> [] then [(''Authorization'', ''Bearer '' @ t)] else [])"

definition request_headers :: "string option \<Rightarrow> RequestOptions \<Rightarrow> js_error + Headers" where
  "request_headers tok options =
     (case new_Headers
             (spread (spread [(''Content-Type'', ''application/json'')] (bearer tok))
                (headers options)) of
        Inl e \<Rightarrow> Inl e
      | Inr hs \<Rightarrow>
          Inr (if body options = FormData then Headers_delete ''Content-Type'' hs else hs))"

section \<open>The retry loop\<close>

text \<open>
  What the transport does with one \<^verbatim>\<open>fetch\<close> call: a response arrives, the call rejects
  (a \<^verbatim>\<open>TypeError\<close> when the server cannot be reached), or nothing arrives before the
  timer of that attempt fires, the controller aborts and \<^verbatim>\<open>fetch\<close> rejects with the abort
  error. The text of the abort error is the engine's.
\<close>

datatype fetch_outcome = Responds Response | Rejects js_error | Stalls

definition abort_error :: js_error where
  "abort_error = JsError AbortError ''signal is aborted without reason''"

definition failed_to_fetch :: js_error where
  "failed_to_fetch = JsError TypeError ''Failed to fetch''"

definition network_error :: js_error where
  "network_error = JsError Error ''Network error: Please check your internet connection''"

text \<open>The body of the \<^verbatim>\<open>try\<close> block (lines 71-81): \<open>Inl\<close> is what the \<^verbatim>\<open>catch\<close> receives.\<close>

definition try_fetch :: "fetch_outcome \<Rightarrow> js_error + ApiResponse" where
  "try_fetch out = (case out of
                      Responds response \<Rightarrow> handleResponse response
                    | Rejects e \<Rightarrow> Inl e
                    | Stalls \<Rightarrow> Inl abort_error)"

text \<open>
  The test of line 86:
  \<^verbatim>\<open>error instanceof TypeError && error.message === 'Failed to fetch'\<close>.
\<close>

definition is_failed_to_fetch :: "js_error \<Rightarrow> bool" where
  "is_failed_to_fetch e = (err_class e = TypeError \<and> err_message e = ''Failed to fetch'')"

text \<open>
  What a call does to the outside, in order: the read of the credential slot, each
  \<^verbatim>\<open>fetch\<close> with the headers handed to it and the delay of its abort timer, each backoff
  wait in milliseconds.
\<close>

datatype effect = GetItem string | Fetch Headers nat | Delay nat

text \<open>How a promise settles; \<open>Rejected None\<close> is a rejection with \<^verbatim>\<open>null\<close>.\<close>

datatype 'a settled = Resolved 'a | Rejected "js_error option"

definition after :: "effect list \<Rightarrow> 'a settled \<times> effect list \<Rightarrow> 'a settled \<times> effect list" where
  "after es r = (fst r, es @ snd r)"

text \<open>
  The \<^verbatim>\<open>for\<close> loop of lines 67-100 from the iteration \<open>attempt\<close> on. \<open>transport i\<close> is what
  happens to the \<open>i\<close>-th \<^verbatim>\<open>fetch\<close> of the call (counted from 0). The last line is the
  \<^verbatim>\<open>throw lastError\<close> behind the loop.
\<close>

function attempts ::
  "(nat \<Rightarrow> fetch_outcome) \<Rightarrow> Headers \<Rightarrow> nat \<Rightarrow> int \<Rightarrow> nat \<Rightarrow> js_error option
     \<Rightarrow> ApiResponse settled \<times> effect list" where
  "attempts transport hs tmo n attempt lastError =
     (if int attempt \<le> n then
        (case try_fetch (transport attempt) of
           Inr res \<Rightarrow> (Resolved res, [Fetch hs tmo])
         | Inl e \<Rightarrow>
             if is_failed_to_fetch e then (Rejected (Some network_error), [Fetch hs tmo])
             else if int attempt = n then (Rejected (Some e), [Fetch hs tmo])
             else after [Fetch hs tmo, Delay (RETRY_DELAY * (attempt + 1))]
                    (attempts transport hs tmo n (attempt + 1) (Some e)))
      else (Rejected lastError, []))"
  by pat_completeness auto
termination
  by (relation "measure (\<lambda>(transport, hs, tmo, n, attempt, lastError). nat (n + 1 - int attempt))")
    auto

declare attempts.simps [simp del]

text \<open>
  \<^verbatim>\<open>request\<close> (lines 50-101). \<open>storage i\<close> is the content of the slot \<^verbatim>\<open>token\<close> of
  \<^verbatim>\<open>localStorage\<close> when the \<open>i\<close>-th \<^verbatim>\<open>fetch\<close> of the call is issued, so \<open>storage 0\<close> is
  what line 55 reads. When \<^verbatim>\<open>new Headers\<close> throws (line 56, outside the \<^verbatim>\<open>try\<close>), the
  call rejects with that \<^verbatim>\<open>TypeError\<close> before any \<^verbatim>\<open>fetch\<close>.
\<close>

definition request ::
  "(nat \<Rightarrow> string option) \<Rightarrow> (nat \<Rightarrow> fetch_outcome) \<Rightarrow> RequestOptions
     \<Rightarrow> ApiResponse settled \<times> effect list" where
  "request storage transport options =
     (let tmo = (case timeout options of None \<Rightarrow> REQUEST_TIMEOUT | Some t \<Rightarrow> t);
          n = (case retries options of None \<Rightarrow> MAX_RETRIES | Some r \<Rightarrow> r);
          token = storage 0
      in case request_headers token options of
           Inl e \<Rightarrow> (Rejected (Some e), [GetItem ''token''])
         | Inr hs \<Rightarrow> after [GetItem ''token''] (attempts transport hs tmo n 0 None))"

text \<open>Reading a trace: the number of \<^verbatim>\<open>fetch\<close> calls, and the waits in order.\<close>

fun fetches :: "effect list \<Rightarrow> nat" where
  "fetches [] = 0"
| "fetches (Fetch hs tmo # es) = Suc (fetches es)"
| "fetches (e # es) = fetches es"

fun waits :: "effect list \<Rightarrow> nat list" where
  "waits [] = []"
| "waits (Delay ms # es) = ms # waits es"
| "waits (e # es) = waits es"

fun sent_headers :: "effect list \<Rightarrow> Headers list" where
  "sent_headers [] = []"
| "sent_headers (Fetch hs tmo # es) = hs # sent_headers es"
| "sent_headers (e # es) = sent_headers es"

fun reads :: "effect list \<Rightarrow> nat" where
  "reads [] = 0"
| "reads (GetItem k # es) = Suc (reads es)"
| "reads (e # es) = reads es"

text \<open>A transport that treats every attempt alike, and one that follows a script.\<close>

definition always :: "fetch_outcome \<Rightarrow> nat \<Rightarrow> fetch_outcome" where
  "always out i = out"

definition script :: "fetch_outcome list \<Rightarrow> fetch_outcome \<Rightarrow> nat \<Rightarrow> fetch_outcome" where
  "script outs rest i = (if i < length outs then outs ! i else rest)"

definition stored :: "string option \<Rightarrow> nat \<Rightarrow> string option" where
  "stored tok i = tok"

definition default_options :: RequestOptions where
  "default_options = \<lparr>timeout = None, retries = None, headers = [], body = NoBody\<rparr>"

section \<open>The session hook\<close>

text \<open>
  \<^verbatim>\<open>AuthState\<close> of useAuth.ts. \<open>user = JNull\<close> is \<^verbatim>\<open>user: null\<close>; a profile is the JSON
  the backend sent.
\<close>

record AuthState =
  user :: json
  loading :: bool
  error :: "string option"
  isAuthenticated :: bool

definition initial_state :: AuthState where
  "initial_state = \<lparr>user = JNull, loading = True, error = None, isAuthenticated = False\<rparr>"

definition ROUTES_HOME :: string where "ROUTES_HOME = ''/''"

text \<open>
  auth.ts, in the browser: \<^verbatim>\<open>getToken\<close> returns the slot, \<^verbatim>\<open>isAuthenticated\<close> is
  \<^verbatim>\<open>!!getToken()\<close>.
\<close>

definition authUtils_isAuthenticated :: "string option \<Rightarrow> bool" where
  "authUtils_isAuthenticated tok = (case tok of None \<Rightarrow> False | Some t \<Rightarrow> t \<noteq> [])"

text \<open>\<^verbatim>\<open>api.user.getProfile()\<close>: a \<^verbatim>\<open>GET\<close> with no option set.\<close>

definition getProfile ::
  "(nat \<Rightarrow> string option) \<Rightarrow> (nat \<Rightarrow> fetch_outcome) \<Rightarrow> ApiResponse settled \<times> effect list" where
  "getProfile storage transport = request storage transport default_options"

text \<open>
  \<^verbatim>\<open>getCurrentUser\<close> (auth.ts, lines 72-83). The result is what the promise settles
  with: \<open>Inr\<close> a value, \<open>Inl\<close> a rejection. Its \<^verbatim>\<open>catch\<close> turns every rejection of the
  request into \<^verbatim>\<open>null\<close>. The slot is read when the function is called, in the same
  synchronous run as line 55 of the request, so both see \<open>tok\<close>.
\<close>

definition getCurrentUser :: "string option \<Rightarrow> (nat \<Rightarrow> fetch_outcome) \<Rightarrow> js_error + json" where
  "getCurrentUser tok transport =
     (if \<not> authUtils_isAuthenticated tok then Inr JNull
      else (case fst (getProfile (stored tok) transport) of
              Resolved response \<Rightarrow> Inr (data response)
            | Rejected e \<Rightarrow> Inr JNull))"

text \<open>
  The three state updates of \<^verbatim>\<open>checkAuth\<close> (useAuth.ts, lines 28-64): line 30, lines
  35-40, and what follows the \<^verbatim>\<open>await\<close>: lines 48-53 when \<^verbatim>\<open>getCurrentUser\<close> resolved,
  the \<^verbatim>\<open>catch\<close> of lines 56-62 when it rejected (every thrown value of this model is an
  \<^verbatim>\<open>Error\<close> instance, so the stored text is its message).
\<close>

definition begin_operation :: "AuthState \<Rightarrow> AuthState" where
  "begin_operation st = st\<lparr>loading := True, error := None\<rparr>"

definition set_anonymous :: "AuthState \<Rightarrow> AuthState" where
  "set_anonymous st = st\<lparr>user := JNull, isAuthenticated := False, loading := False\<rparr>"

definition checkAuth_settle :: "js_error + json \<Rightarrow> AuthState \<Rightarrow> AuthState" where
  "checkAuth_settle r st =
     (case r of
        Inr currentUser \<Rightarrow>
          st\<lparr>user := currentUser, isAuthenticated := truthy currentUser, loading := False\<rparr>
      | Inl err \<Rightarrow>
          st\<lparr>user := JNull, isAuthenticated := False, loading := False,
             error := Some (err_message err)\<rparr>)"

text \<open>
  The hook in its browser tab: the state, the slot \<^verbatim>\<open>token\<close> of \<^verbatim>\<open>localStorage\<close>, the
  \<^verbatim>\<open>checkAuth\<close> calls that wait for their profile (each with the token it read when it
  started), and the routes pushed to the router.
\<close>

record Session =
  auth :: AuthState
  localStorage_token :: "string option"
  pending :: "string option list"
  navigations :: "string list"

text \<open>\<^verbatim>\<open>checkAuth\<close> run from call to completion with nothing in between.\<close>

definition checkAuth :: "(nat \<Rightarrow> fetch_outcome) \<Rightarrow> Session \<Rightarrow> Session" where
  "checkAuth transport s =
     (let st = begin_operation (auth s) in
      if \<not> authUtils_isAuthenticated (localStorage_token s)
      then s\<lparr>auth := set_anonymous st\<rparr>
      else s\<lparr>auth := checkAuth_settle (getCurrentUser (localStorage_token s) transport) st\<rparr>)"

text \<open>
  \<^verbatim>\<open>logout\<close> (useAuth.ts, lines 145-164, over auth.ts lines 37-45 and api.ts lines
  124-127): nothing on its way throws, and its \<^verbatim>\<open>await\<close>s are settled promises, so no
  network completion runs in between.
\<close>

definition logout :: "Session \<Rightarrow> Session" where
  "logout s =
     s\<lparr>auth := set_anonymous (begin_operation (auth s)),
       localStorage_token := None,
       navigations := navigations s @ [ROUTES_HOME]\<rparr>"

text \<open>
  The interleavings of the event loop. A \<^verbatim>\<open>checkAuth\<close> call runs up to its \<^verbatim>\<open>await\<close>; the
  \<open>k\<close>-th waiting call resumes when its request has settled, \<open>transport\<close> being what the
  network did to that request. An event that cannot happen gives \<open>None\<close>.
\<close>

datatype event =
    Call_checkAuth
  | Resume_checkAuth nat "nat \<Rightarrow> fetch_outcome"
  | Call_logout

fun fire :: "event \<Rightarrow> Session \<Rightarrow> Session option" where
  "fire Call_checkAuth s =
     (let st = begin_operation (auth s) in
      if \<not> authUtils_isAuthenticated (localStorage_token s)
      then Some (s\<lparr>auth := set_anonymous st\<rparr>)
      else Some (s\<lparr>auth := st, pending := pending s @ [localStorage_token s]\<rparr>))"
| "fire (Resume_checkAuth k transport) s =
     (if k < length (pending s)
      then Some (s\<lparr>auth := checkAuth_settle (getCurrentUser (pending s ! k) transport) (auth s),
                   pending := take k (pending s) @ drop (Suc k) (pending s)\<rparr>)
      else None)"
| "fire Call_logout s = Some (logout s)"

fun run :: "event list \<Rightarrow> Session \<Rightarrow> Session option" where
  "run [] s = Some s"
| "run (e # es) s = (case fire e s of None \<Rightarrow> None | Some s' \<Rightarrow> run es s')"

section \<open>Notions used to state the properties\<close>

text \<open>
  An attempt fails when its \<^verbatim>\<open>try\<close> block throws. The loop goes on after a failure that
  line 86 does not recognise as the transport's \<^verbatim>\<open>Failed to fetch\<close>.
\<close>

definition failure_of :: "fetch_outcome \<Rightarrow> js_error option" where
  "failure_of out = (case try_fetch out of Inl e \<Rightarrow> Some e | Inr res \<Rightarrow> None)"

definition retryable_failure :: "fetch_outcome \<Rightarrow> bool" where
  "retryable_failure out =
     (case try_fetch out of Inl e \<Rightarrow> \<not> is_failed_to_fetch e | Inr res \<Rightarrow> False)"

text \<open>The effects of the failed attempts \<open>a, \<dots>, k - 1\<close>, each followed by its wait.\<close>

definition backoff :: "Headers \<Rightarrow> nat \<Rightarrow> nat \<Rightarrow> nat \<Rightarrow> effect list" where
  "backoff hs tmo a k =
     concat (map (\<lambda>i. [Fetch hs tmo, Delay (RETRY_DELAY * (i + 1))]) [a..<k])"

text \<open>The retry limit in force: the option, or \<^verbatim>\<open>MAX_RETRIES\<close>.\<close>

definition retry_limit :: "RequestOptions \<Rightarrow> int" where
  "retry_limit options = (case retries options of None \<Rightarrow> MAX_RETRIES | Some r \<Rightarrow> r)"

text \<open>A credential slot that another script rewrites after the first attempt.\<close>

definition changing :: "string option \<Rightarrow> string option \<Rightarrow> nat \<Rightarrow> string option" where
  "changing first later i = (if i = 0 then first else later)"


text \<open>What the \<^verbatim>\<open>await\<close> of line 45 of useAuth.ts yields.\<close>

definition fetched_user :: "string option \<Rightarrow> (nat \<Rightarrow> fetch_outcome) \<Rightarrow> json" where
  "fetched_user tok transport =
     (case getCurrentUser tok transport of Inr u \<Rightarrow> u | Inl e \<Rightarrow> JNull)"

section \<open>The loop, step by step\<close>

lemma after_after: "after es (after es' r) = after (es @ es') r"
  by (simp add: after_def)

lemma after_Nil: "after [] r = r"
  by (simp add: after_def)

lemma attempts_resolved:
  "int a \<le> n \<Longrightarrow> try_fetch (transport a) = Inr res \<Longrightarrow>
   attempts transport hs tmo n a le = (Resolved res, [Fetch hs tmo])"
  by (subst attempts.simps) simp

lemma attempts_network:
  "int a \<le> n \<Longrightarrow> try_fetch (transport a) = Inl e \<Longrightarrow> is_failed_to_fetch e \<Longrightarrow>
   attempts transport hs tmo n a le = (Rejected (Some network_error), [Fetch hs tmo])"
  by (subst attempts.simps) simp

lemma attempts_last:
  "int a = n \<Longrightarrow> try_fetch (transport a) = Inl e \<Longrightarrow> \<not> is_failed_to_fetch e \<Longrightarrow>
   attempts transport hs tmo n a le = (Rejected (Some e), [Fetch hs tmo])"
  by (subst attempts.simps) simp

lemma attempts_retry:
  "int a < n \<Longrightarrow> try_fetch (transport a) = Inl e \<Longrightarrow> \<not> is_failed_to_fetch e \<Longrightarrow>
   attempts transport hs tmo n a le =
     after [Fetch hs tmo, Delay (RETRY_DELAY * (a + 1))]
       (attempts transport hs tmo n (a + 1) (Some e))"
  by (subst attempts.simps) simp

lemma attempts_lastError:
  "int a \<le> n \<Longrightarrow> attempts transport hs tmo n a le = attempts transport hs tmo n a le'"
  by (subst attempts.simps, subst (2) attempts.simps) simp

lemma backoff_step: "a < k \<Longrightarrow>
  backoff hs tmo a k = [Fetch hs tmo, Delay (RETRY_DELAY * (a + 1))] @ backoff hs tmo (Suc a) k"
  by (simp add: backoff_def upt_conv_Cons)

lemma backoff_empty: "backoff hs tmo a a = []"
  by (simp add: backoff_def)

lemma attempts_prefix:
  assumes "\<forall>i. a \<le> i \<and> i < k \<longrightarrow> retryable_failure (transport i)"
    and "a \<le> k" and "int k \<le> n"
  shows "attempts transport hs tmo n a le =
           after (backoff hs tmo a k) (attempts transport hs tmo n k le)"
  using assms
proof (induction "k - a" arbitrary: a le)
  case 0
  then have "a = k" by simp
  then show ?case by (simp add: backoff_empty after_Nil)
next
  case (Suc d)
  then have lt: "a < k" by simp
  with Suc.prems have "retryable_failure (transport a)" by simp
  then obtain e where e: "try_fetch (transport a) = Inl e" "\<not> is_failed_to_fetch e"
    by (auto simp: retryable_failure_def split: sum.splits)
  from lt Suc.prems have an: "int a < n" by simp
  have d: "d = k - Suc a" using Suc.hyps by simp
  have rest: "attempts transport hs tmo n (Suc a) (Some e) =
          after (backoff hs tmo (Suc a) k) (attempts transport hs tmo n k (Some e))"
    using Suc.prems lt by (intro Suc.hyps(1) [OF d]) auto
  have "attempts transport hs tmo n k (Some e) = attempts transport hs tmo n k le"
    using Suc.prems by (intro attempts_lastError) simp
  with rest
    attempts_retry [where transport = transport and a = a and hs = hs and tmo = tmo and le = le,
      OF an e]
  show ?case
    by (simp add: after_after backoff_step [OF lt])
qed

lemma fetches_append: "fetches (xs @ ys) = fetches xs + fetches ys"
  by (induction xs rule: fetches.induct) auto

lemma waits_append: "waits (xs @ ys) = waits xs @ waits ys"
  by (induction xs rule: waits.induct) auto

lemma fetches_rounds: "fetches (concat (map (\<lambda>i. [Fetch hs tmo, Delay (f i)]) xs)) = length xs"
  by (induction xs) auto

lemma waits_rounds: "waits (concat (map (\<lambda>i. [Fetch hs tmo, Delay (f i)]) xs)) = map f xs"
  by (induction xs) auto

lemma fetches_backoff: "fetches (backoff hs tmo a k) = k - a"
  by (simp add: backoff_def fetches_rounds)

lemma waits_backoff: "waits (backoff hs tmo a k) = map (\<lambda>i. 1000 * i) [Suc a..<Suc k]"
proof -
  have "waits (backoff hs tmo a k) = map (\<lambda>i. 1000 * Suc i) [a..<k]"
    by (simp add: backoff_def waits_rounds RETRY_DELAY_def)
  also have "\<dots> = map (\<lambda>i. 1000 * i) (map Suc [a..<k])"
    by (simp add: comp_def)
  finally show ?thesis by (simp only: map_Suc_upt)
qed

lemma request_unfold:
  "request_headers (storage 0) options = Inr hs \<Longrightarrow>
   request storage transport options =
     after [GetItem ''token'']
       (attempts transport hs
          (case timeout options of None \<Rightarrow> REQUEST_TIMEOUT | Some t \<Rightarrow> t)
          (retry_limit options) 0 None)"
  by (simp add: request_def retry_limit_def Let_def)

lemma request_invalid:
  "request_headers (storage 0) options = Inl e \<Longrightarrow>
   request storage transport options = (Rejected (Some e), [GetItem ''token''])"
  by (simp add: request_def Let_def)

lemma request_after_failures:
  assumes "request_headers (storage 0) options = Inr hs"
    and "\<forall>i<k. retryable_failure (transport i)" and "int k \<le> retry_limit options"
  shows "request storage transport options =
     after (GetItem ''token'' # backoff hs
              (case timeout options of None \<Rightarrow> REQUEST_TIMEOUT | Some t \<Rightarrow> t) 0 k)
       (attempts transport hs
          (case timeout options of None \<Rightarrow> REQUEST_TIMEOUT | Some t \<Rightarrow> t)
          (retry_limit options) k None)"
proof -
  have "attempts transport hs
          (case timeout options of None \<Rightarrow> REQUEST_TIMEOUT | Some t \<Rightarrow> t)
          (retry_limit options) 0 None =
        after (backoff hs
              (case timeout options of None \<Rightarrow> REQUEST_TIMEOUT | Some t \<Rightarrow> t) 0 k)
          (attempts transport hs
          (case timeout options of None \<Rightarrow> REQUEST_TIMEOUT | Some t \<Rightarrow> t)
          (retry_limit options) k None)"
    using assms(2,3) by (intro attempts_prefix) auto
  then show ?thesis by (simp add: request_unfold [where storage = storage, OF assms(1)] after_after)
qed

lemma always_apply: "always out i = out"
  by (simp add: always_def)

lemma is_failed_to_fetch_iff: "is_failed_to_fetch e \<longleftrightarrow> e = failed_to_fetch"
  by (cases e) (auto simp: is_failed_to_fetch_def failed_to_fetch_def)

lemma handleResponse_not_ok:
  assumes "\<not> ok r"
  shows "\<exists>e. handleResponse r = Inl e \<and> \<not> is_failed_to_fetch e"
proof (cases "json_body r")
  case (NotJson m)
  then show ?thesis by (simp add: handleResponse_def is_failed_to_fetch_def)
next
  case (Json d)
  show ?thesis
  proof (cases "truthy d \<and> length (Object_keys d) > 0")
    case True
    with Json assms show ?thesis by (simp add: handleResponse_def is_failed_to_fetch_def)
  next
    case False
    with Json assms show ?thesis
      by (cases d)
        (auto simp: handleResponse_def is_failed_to_fetch_def null_read_message_def
          split: option.splits)
  qed
qed

lemma handleResponse_null:
  "json_body r = Json JNull \<Longrightarrow> handleResponse r = Inl (JsError TypeError null_read_message)"
  by (simp add: handleResponse_def)

lemma null_read_not_failed_to_fetch:
  "\<not> is_failed_to_fetch (JsError TypeError null_read_message)"
  by (simp add: is_failed_to_fetch_def null_read_message_def)

lemma lowercase_Content_Type: "lowercase ''Content-Type'' = ''content-type''"
  by (simp add: lowercase_def lower_char_def)

lemma lowercase_Authorization: "lowercase ''Authorization'' = ''authorization''"
  by (simp add: lowercase_def lower_char_def)

lemma headers_without_token:
  "request_headers None default_options = Inr [(''content-type'', ''application/json'')]"
  by (simp add: request_headers_def default_options_def bearer_def spread_def new_Headers_def
      Headers_append_def valid_name_def valid_value_def is_tchar_def normalize_value_def
      is_http_whitespace_def lowercase_Content_Type)

lemma headers_with_T:
  "request_headers (Some ''T'') default_options =
     Inr [(''content-type'', ''application/json''), (''authorization'', ''Bearer T'')]"
  by (simp add: request_headers_def default_options_def bearer_def spread_def new_Headers_def
      Headers_append_def valid_name_def valid_value_def is_tchar_def normalize_value_def
      is_http_whitespace_def lowercase_Content_Type lowercase_Authorization)

lemma headers_with_line_break:
  "request_headers (Some [CHR ''a'', CHR 0x0A, CHR ''b'']) default_options =
     Inl (JsError TypeError invalid_value_message)"
  by (simp add: request_headers_def default_options_def bearer_def spread_def new_Headers_def
      Headers_append_def valid_name_def valid_value_def is_tchar_def normalize_value_def
      is_http_whitespace_def lowercase_Content_Type lowercase_Authorization)

lemma default_limits:
  "retry_limit default_options = 3"
  "(case timeout default_options of None \<Rightarrow> REQUEST_TIMEOUT | Some t \<Rightarrow> t) = 30000"
  by (simp_all add: retry_limit_def default_options_def MAX_RETRIES_def REQUEST_TIMEOUT_def)

lemma request_without_token:
  "request (stored None) transport default_options =
     after [GetItem ''token'']
       (attempts transport [(''content-type'', ''application/json'')] 30000 3 0 None)"
  using request_unfold [of "stored None" default_options
      "[(''content-type'', ''application/json'')]" transport]
  by (simp add: stored_def headers_without_token default_limits)

lemma request_with_T:
  "request (stored (Some ''T'')) transport default_options =
     after [GetItem ''token'']
       (attempts transport
          [(''content-type'', ''application/json''), (''authorization'', ''Bearer T'')]
          30000 3 0 None)"
  using request_unfold [of "stored (Some ''T'')" default_options
      "[(''content-type'', ''application/json''), (''authorization'', ''Bearer T'')]" transport]
  by (simp add: stored_def headers_with_T default_limits)

section \<open>Retry and backoff\<close>





lemma reject_after_all_attempts:
  assumes "request_headers (storage 0) options = Inr hs"
    and "0 \<le> retry_limit options"
    and "\<forall>i\<le>nat (retry_limit options). retryable_failure (transport i)"
  shows "fetches (snd (request storage transport options)) = nat (retry_limit options) + 1
       \<and> fst (request storage transport options)
           = Rejected (failure_of (transport (nat (retry_limit options))))"
proof -
  let ?k = "nat (retry_limit options)"
  from assms(2) have k: "int ?k = retry_limit options" by simp
  from assms(3) have pre: "\<forall>i<?k. retryable_failure (transport i)" by simp
  from assms(3) have "retryable_failure (transport ?k)" by simp
  then obtain e where e: "try_fetch (transport ?k) = Inl e" "\<not> is_failed_to_fetch e"
    by (auto simp: retryable_failure_def split: sum.splits)
  have last: "attempts transport hs tmo (retry_limit options) ?k None =
                (Rejected (Some e), [Fetch hs tmo])" for tmo
    using k e by (rule attempts_last)
  have lim: "int ?k \<le> retry_limit options" using k by simp
  show ?thesis
    unfolding request_after_failures [where storage = storage and transport = transport,
        OF assms(1) pre lim] last
    by (simp add: after_def fetches_append fetches_backoff failure_of_def e)
qed

text \<open>
  C4, as the code has it. With a retry limit that is not negative, if every attempt fails
  with a failure other than the transport's \<^verbatim>\<open>Failed to fetch\<close>, the call performs
  exactly limit + 1 fetches and rejects with the failure of the last attempt, provided its
  headers are valid header text; if they are not, \<^verbatim>\<open>new Headers\<close> throws and the call
  rejects without any fetch.
\<close>

theorem all_attempts_fail:
  assumes "0 \<le> retry_limit options"
    and "\<forall>i\<le>nat (retry_limit options). retryable_failure (transport i)"
  shows "(\<forall>hs. request_headers (storage 0) options = Inr hs \<longrightarrow>
            fetches (snd (request storage transport options)) = nat (retry_limit options) + 1
          \<and> fst (request storage transport options)
              = Rejected (failure_of (transport (nat (retry_limit options)))))
       \<and> (\<forall>e. request_headers (storage 0) options = Inl e \<longrightarrow>
             request storage transport options = (Rejected (Some e), [GetItem ''token'']))"
  using reject_after_all_attempts [where storage = storage and transport = transport,
      OF _ assms]
  by (simp add: request_invalid)

theorem all_attempts_fail_witness:
  "fetches (snd (request (stored None) (always Stalls) default_options)) = 4
   \<and> fst (request (stored None) (always Stalls) default_options) = Rejected (Some abort_error)
   \<and> request (stored (Some [CHR ''a'', CHR 0x0A, CHR ''b''])) (always Stalls) default_options
     = (Rejected (Some (JsError TypeError invalid_value_message)), [GetItem ''token''])"
proof -
  have a: "0 \<le> retry_limit default_options"
    by (simp add: retry_limit_def default_options_def MAX_RETRIES_def)
  have b: "\<forall>i\<le>nat (retry_limit default_options). retryable_failure (always Stalls i)"
    by (simp add: always_def retryable_failure_def try_fetch_def abort_error_def
        is_failed_to_fetch_def)
  have h: "request_headers (stored None 0) default_options =
      Inr [(''content-type'', ''application/json'')]"
    by (simp add: stored_def headers_without_token)
  have h': "request_headers (stored (Some [CHR ''a'', CHR 0x0A, CHR ''b'']) 0) default_options =
      Inl (JsError TypeError invalid_value_message)"
    by (simp add: stored_def headers_with_line_break)
  show ?thesis
    using all_attempts_fail [where options = default_options and transport = "always Stalls"
        and storage = "stored None", OF a b]
      all_attempts_fail [where options = default_options and transport = "always Stalls"
        and storage = "stored (Some [CHR ''a'', CHR 0x0A, CHR ''b''])", OF a b] h h'
    by (simp add: retry_limit_def default_options_def MAX_RETRIES_def always_apply
        failure_of_def try_fetch_def)
qed

text \<open>
  C4 as stated fails when an attempt cannot reach the server: with the default limit of 3
  and every attempt failing so, there is one fetch, not four, and the rejection is a new
  \<^verbatim>\<open>Error\<close>, not the \<^verbatim>\<open>TypeError\<close> the attempt observed.
\<close>

theorem all_attempts_fail_counterexample:
  "failure_of (always (Rejects failed_to_fetch) 0) = Some failed_to_fetch
   \<and> retry_limit default_options = 3
   \<and> fetches (snd (request (stored None) (always (Rejects failed_to_fetch)) default_options)) = 1
   \<and> fst (request (stored None) (always (Rejects failed_to_fetch)) default_options)
       = Rejected (Some (JsError Error ''Network error: Please check your internet connection''))"
  by (simp add: request_without_token default_limits
      attempts.simps always_apply try_fetch_def failure_of_def
      is_failed_to_fetch_def failed_to_fetch_def network_error_def after_def)

lemma reject_on_network_failure:
  assumes "request_headers (storage 0) options = Inr hs"
    and "\<forall>i<k. retryable_failure (transport i)"
    and "int k \<le> retry_limit options"
    and "transport k = Rejects failed_to_fetch"
  shows "fst (request storage transport options) = Rejected (Some network_error)
       \<and> fetches (snd (request storage transport options)) = k + 1
       \<and> waits (snd (request storage transport options)) = map (\<lambda>i. 1000 * i) [1..<k + 1]"
proof -
  have "try_fetch (transport k) = Inl failed_to_fetch"
    using assms(4) by (simp add: try_fetch_def)
  moreover have "is_failed_to_fetch failed_to_fetch"
    by (simp add: is_failed_to_fetch_iff)
  ultimately have last: "attempts transport hs tmo (retry_limit options) k None =
      (Rejected (Some network_error), [Fetch hs tmo])" for tmo
    using assms(3) by (intro attempts_network)
  show ?thesis
    unfolding request_after_failures [where storage = storage and transport = transport,
        OF assms(1,2,3)] last
    by (simp add: after_def fetches_append waits_append fetches_backoff waits_backoff
        del: upt_Suc)
qed

text \<open>
  C1, as the code has it. A failure to reach the server is not retried: if the attempts
  before the \<open>k\<close>-th failed with failures the loop retries and the \<open>k\<close>-th \<^verbatim>\<open>fetch\<close>
  rejects with \<^verbatim>\<open>TypeError('Failed to fetch')\<close>, the call ends there, whatever the retry
  limit leaves: it rejects with the \<^verbatim>\<open>Error\<close> of line 87 after \<open>k + 1\<close> fetches, and
  the only waits are those after the earlier failures. This is for a call whose headers
  are valid header text; for one whose headers are not, \<^verbatim>\<open>new Headers\<close> throws and the
  call rejects without any fetch.
\<close>

theorem network_failure_ends_loop:
  assumes "\<forall>i<k. retryable_failure (transport i)"
    and "int k \<le> retry_limit options"
    and "transport k = Rejects failed_to_fetch"
  shows "(\<forall>hs. request_headers (storage 0) options = Inr hs \<longrightarrow>
            fst (request storage transport options) = Rejected (Some network_error)
          \<and> fetches (snd (request storage transport options)) = k + 1
          \<and> waits (snd (request storage transport options)) = map (\<lambda>i. 1000 * i) [1..<k + 1])
       \<and> (\<forall>e. request_headers (storage 0) options = Inl e \<longrightarrow>
             request storage transport options = (Rejected (Some e), [GetItem ''token'']))"
  using reject_on_network_failure [where storage = storage and transport = transport,
      OF _ assms]
  by (simp add: request_invalid)

theorem network_failure_ends_loop_witness:
  "fst (request (stored None) (script [Stalls, Rejects failed_to_fetch] Stalls) default_options)
     = Rejected (Some network_error)
   \<and> fetches (snd (request (stored None) (script [Stalls, Rejects failed_to_fetch] Stalls)
        default_options)) = 2
   \<and> waits (snd (request (stored None) (script [Stalls, Rejects failed_to_fetch] Stalls)
        default_options)) = [1000]
   \<and> request (stored (Some [CHR ''a'', CHR 0x0A, CHR ''b'']))
        (script [Stalls, Rejects failed_to_fetch] Stalls) default_options
     = (Rejected (Some (JsError TypeError invalid_value_message)), [GetItem ''token''])"
proof -
  let ?t = "script [Stalls, Rejects failed_to_fetch] Stalls"
  have a: "\<forall>i<1. retryable_failure (?t i)"
    by (simp add: script_def retryable_failure_def try_fetch_def abort_error_def
        is_failed_to_fetch_def)
  have b: "int 1 \<le> retry_limit default_options"
    by (simp add: retry_limit_def default_options_def MAX_RETRIES_def)
  have c: "?t 1 = Rejects failed_to_fetch"
    by (simp add: script_def)
  have h: "request_headers (stored None 0) default_options =
      Inr [(''content-type'', ''application/json'')]"
    by (simp add: stored_def headers_without_token)
  have h': "request_headers (stored (Some [CHR ''a'', CHR 0x0A, CHR ''b'']) 0) default_options =
      Inl (JsError TypeError invalid_value_message)"
    by (simp add: stored_def headers_with_line_break)
  show ?thesis
    using network_failure_ends_loop [where transport = ?t and k = 1 and options = default_options
        and storage = "stored None", OF a b c]
      network_failure_ends_loop [where transport = ?t and k = 1 and options = default_options
        and storage = "stored (Some [CHR ''a'', CHR 0x0A, CHR ''b''])", OF a b c] h h'
    by simp
qed

text \<open>
  C1 as stated fails: the first attempt cannot reach the server, the second would get a
  200, the limit is 3; the call rejects after a single fetch and no wait.
\<close>

theorem network_failure_counterexample:
  "retry_limit default_options = 3
   \<and> request (stored None)
       (script [Rejects failed_to_fetch] (Responds \<lparr>status = 200, json_body = Json (JObj [])\<rparr>))
       default_options
     = (Rejected (Some (JsError Error ''Network error: Please check your internet connection'')),
        [GetItem ''token'', Fetch [(''content-type'', ''application/json'')] 30000])"
  by (simp add: request_without_token default_limits
      attempts.simps script_def try_fetch_def is_failed_to_fetch_def failed_to_fetch_def
      network_error_def after_def)

text \<open>
  C2, as the code has it. A response with a status outside 200..299 makes the attempt fail
  like any other failure the loop retries: while attempts remain the pipeline waits
  \<open>1000 * (attempt + 1)\<close> ms and fetches again; the failure is handed to the caller only
  when it occurs on the last attempt.
\<close>

theorem non_2xx_is_retried:
  assumes "transport a = Responds r" and "\<not> ok r"
  shows "failure_of (transport a) \<noteq> None
       \<and> (int a < n \<longrightarrow>
            attempts transport hs tmo n a le =
              after [Fetch hs tmo, Delay (1000 * (a + 1))]
                (attempts transport hs tmo n (a + 1) (failure_of (transport a))))
       \<and> (int a = n \<longrightarrow>
            attempts transport hs tmo n a le = (Rejected (failure_of (transport a)), [Fetch hs tmo]))"
proof -
  from handleResponse_not_ok [OF assms(2)] obtain e
    where e: "handleResponse r = Inl e" "\<not> is_failed_to_fetch e" by blast
  with assms(1) have t: "try_fetch (transport a) = Inl e" by (simp add: try_fetch_def)
  then have f: "failure_of (transport a) = Some e" by (simp add: failure_of_def)
  have "attempts transport hs tmo n a le =
          after [Fetch hs tmo, Delay (1000 * (a + 1))] (attempts transport hs tmo n (a + 1) (Some e))"
    if "int a < n"
    using attempts_retry [where transport = transport and a = a, OF that t e(2)]
    by (simp add: RETRY_DELAY_def)
  moreover have "attempts transport hs tmo n a le = (Rejected (Some e), [Fetch hs tmo])"
    if "int a = n"
    using that t e(2) by (rule attempts_last)
  ultimately show ?thesis using f by simp
qed

theorem non_2xx_is_retried_witness:
  "attempts (always (Responds \<lparr>status = 404, json_body = Json (JObj [])\<rparr>)) [] 30000 3 0 None
     = after [Fetch [] 30000, Delay 1000]
         (attempts (always (Responds \<lparr>status = 404, json_body = Json (JObj [])\<rparr>)) [] 30000 3 1
            (Some (JsError Error ''An error occurred'')))
   \<and> attempts (always (Responds \<lparr>status = 404, json_body = Json (JObj [])\<rparr>)) [] 30000 3 3 None
     = (Rejected (Some (JsError Error ''An error occurred'')), [Fetch [] 30000])"
proof -
  let ?r = "\<lparr>status = 404, json_body = Json (JObj [])\<rparr>"
  have a: "always (Responds ?r) i = Responds ?r" for i by (simp add: always_def)
  have b: "\<not> ok ?r" by (simp add: ok_def)
  have f: "failure_of (Responds ?r) = Some (JsError Error ''An error occurred'')"
    by (simp add: failure_of_def try_fetch_def handleResponse_def ok_def)
  show ?thesis
    using non_2xx_is_retried [where transport = "always (Responds ?r)" and a = 0 and n = 3
        and hs = "[]" and tmo = 30000 and le = None, OF a b]
      non_2xx_is_retried [where transport = "always (Responds ?r)" and a = 3 and n = 3
        and hs = "[]" and tmo = 30000 and le = None, OF a b]
    by (simp add: a f)
qed

text \<open>
  C2 as stated fails: a backend that answers 400 with a validation payload is asked four
  times under the default limit, with waits of 1, 2 and 3 seconds.
\<close>

theorem non_2xx_counterexample:
  "fetches (snd (request (stored None)
      (always (Responds \<lparr>status = 400,
         json_body = Json (JObj [(''email'', JArr [JStr ''This field is required.''])])\<rparr>))
      default_options)) = 4
   \<and> waits (snd (request (stored None)
      (always (Responds \<lparr>status = 400,
         json_body = Json (JObj [(''email'', JArr [JStr ''This field is required.''])])\<rparr>))
      default_options)) = [1000, 2000, 3000]"
  by (simp add: request_without_token default_limits
      attempts.simps always_apply try_fetch_def handleResponse_def ok_def
      is_failed_to_fetch_def after_def RETRY_DELAY_def)

section \<open>Bodies that parse to null\<close>

text \<open>
  C9. For a response whose body parses to \<^verbatim>\<open>null\<close>, whatever its status,
  \<^verbatim>\<open>handleResponse\<close> throws the \<^verbatim>\<open>TypeError\<close> of reading \<^verbatim>\<open>message\<close> of \<^verbatim>\<open>null\<close>; the loop
  treats the attempt as failed: it waits and fetches again while attempts remain, and
  rejects with that \<^verbatim>\<open>TypeError\<close> on the last attempt.
\<close>

theorem null_body_throws:
  assumes "json_body r = Json JNull"
  shows "handleResponse r = Inl (JsError TypeError null_read_message)
       \<and> (transport a = Responds r \<and> int a < n \<longrightarrow>
            attempts transport hs tmo n a le =
              after [Fetch hs tmo, Delay (1000 * (a + 1))]
                (attempts transport hs tmo n (a + 1) (Some (JsError TypeError null_read_message))))
       \<and> (transport a = Responds r \<and> int a = n \<longrightarrow>
            attempts transport hs tmo n a le =
              (Rejected (Some (JsError TypeError null_read_message)), [Fetch hs tmo]))"
proof -
  note h = handleResponse_null [OF assms]
  have t: "try_fetch (transport a) = Inl (JsError TypeError null_read_message)"
    if "transport a = Responds r"
    using that h by (simp add: try_fetch_def)
  have "attempts transport hs tmo n a le =
          after [Fetch hs tmo, Delay (1000 * (a + 1))]
            (attempts transport hs tmo n (a + 1) (Some (JsError TypeError null_read_message)))"
    if "transport a = Responds r" "int a < n"
    using attempts_retry [where transport = transport and a = a, OF that(2) t [OF that(1)]
        null_read_not_failed_to_fetch]
    by (simp add: RETRY_DELAY_def)
  moreover have "attempts transport hs tmo n a le =
      (Rejected (Some (JsError TypeError null_read_message)), [Fetch hs tmo])"
    if "transport a = Responds r" "int a = n"
    using that(2) t [OF that(1)] null_read_not_failed_to_fetch by (rule attempts_last)
  ultimately show ?thesis using h by blast
qed

theorem null_body_throws_witness:
  "handleResponse \<lparr>status = 200, json_body = Json JNull\<rparr>
     = Inl (JsError TypeError null_read_message)
   \<and> ok \<lparr>status = 200, json_body = Json JNull\<rparr>
   \<and> attempts (always (Responds \<lparr>status = 200, json_body = Json JNull\<rparr>)) [] 30000 1 0 None
     = after [Fetch [] 30000, Delay 1000]
         (attempts (always (Responds \<lparr>status = 200, json_body = Json JNull\<rparr>)) [] 30000 1 1
            (Some (JsError TypeError null_read_message)))
   \<and> attempts (always (Responds \<lparr>status = 200, json_body = Json JNull\<rparr>)) [] 30000 1 1 None
     = (Rejected (Some (JsError TypeError null_read_message)), [Fetch [] 30000])"
proof -
  let ?r = "\<lparr>status = 200, json_body = Json JNull\<rparr>"
  have a: "json_body ?r = Json JNull" by simp
  have b: "always (Responds ?r) i = Responds ?r" for i by (simp add: always_def)
  show ?thesis
    using null_body_throws [where transport = "always (Responds ?r)" and a = 0 and n = 1
        and hs = "[]" and tmo = 30000 and le = None, OF a]
      null_body_throws [where transport = "always (Responds ?r)" and a = 1 and n = 1
        and hs = "[]" and tmo = 30000 and le = None, OF a]
    by (simp add: b ok_def)
qed

section \<open>What a caller can tell from a rejection\<close>








section \<open>The headers of a call\<close>

lemma attempts_trace:
  "reads (snd (attempts transport hs tmo n a le)) = 0
   \<and> set (sent_headers (snd (attempts transport hs tmo n a le))) \<subseteq> {hs}"
proof (induction transport hs tmo n a le rule: attempts.induct)
  case (1 transport hs tmo n attempt lastError)
  show ?case
  proof (cases "int attempt \<le> n")
    case False
    then show ?thesis by (subst attempts.simps, subst (2) attempts.simps) simp
  next
    case True
    show ?thesis
    proof (cases "try_fetch (transport attempt)")
      case (Inr res)
      with True show ?thesis by (simp add: attempts_resolved)
    next
      case (Inl e)
      show ?thesis
      proof (cases "is_failed_to_fetch e")
        case True
        with \<open>int attempt \<le> n\<close> Inl show ?thesis by (simp add: attempts_network)
      next
        case nf: False
        show ?thesis
        proof (cases "int attempt = n")
          case True
          with Inl nf show ?thesis by (simp add: attempts_last)
        next
          case False
          with \<open>int attempt \<le> n\<close> have lt: "int attempt < n" by simp
          from "1.IH" [OF \<open>int attempt \<le> n\<close> Inl nf False]
          show ?thesis
            by (simp add: attempts_retry [where transport = transport and a = attempt, OF lt Inl nf]
                after_def)
        qed
      qed
    qed
  qed
qed

lemma request_reads: "reads (snd (request storage transport options)) = 1"
proof (cases "request_headers (storage 0) options")
  case (Inl e)
  then show ?thesis by (simp add: request_invalid)
next
  case (Inr hs)
  then show ?thesis
    by (simp add: request_unfold [where storage = storage] after_def attempts_trace)
qed

lemma request_first_effect: "hd (snd (request storage transport options)) = GetItem ''token''"
proof (cases "request_headers (storage 0) options")
  case (Inl e)
  then show ?thesis by (simp add: request_invalid)
next
  case (Inr hs)
  then show ?thesis by (simp add: request_unfold [where storage = storage] after_def)
qed

lemma request_sent_headers:
  assumes "hs \<in> set (sent_headers (snd (request storage transport options)))"
  shows "request_headers (storage 0) options = Inr hs"
proof (cases "request_headers (storage 0) options")
  case (Inl e)
  with assms show ?thesis by (simp add: request_invalid)
next
  case (Inr hs')
  have "set (sent_headers (snd (attempts transport hs'
          (case timeout options of None \<Rightarrow> REQUEST_TIMEOUT | Some t \<Rightarrow> t)
          (retry_limit options) 0 None))) \<subseteq> {hs'}"
    using attempts_trace by blast
  with assms Inr have "hs = hs'"
    by (auto simp: request_unfold [where storage = storage] after_def)
  with Inr show ?thesis by simp
qed

lemma combine_lookup:
  "map_of (combine k v hs) x =
     (if k = x then Some (case map_of hs x of None \<Rightarrow> v | Some v' \<Rightarrow> v' @ '', '' @ v)
      else map_of hs x)"
  by (induction hs) auto

lemma fill_lookup:
  "fill obj hs = Inr hs' \<Longrightarrow>
   map_of hs' x =
     fold (\<lambda>(k, v) acc. Some (case acc of None \<Rightarrow> normalize_value v
                                | Some v' \<Rightarrow> v' @ '', '' @ normalize_value v))
       (filter (\<lambda>(k, v). lowercase k = x) obj) (map_of hs x)"
proof (induction obj arbitrary: hs)
  case Nil
  then show ?case by simp
next
  case (Cons p obj)
  obtain k v where p: "p = (k, v)" by (cases p)
  from Cons.prems obtain h1 where h1: "Headers_append k v hs = Inr h1" "fill obj h1 = Inr hs'"
    by (auto simp: p split: sum.splits)
  from h1(1) have c: "h1 = combine (lowercase k) (normalize_value v) hs"
    by (auto simp: Headers_append_def Let_def split: if_splits)
  from Cons.IH [OF h1(2)] show ?case
    by (simp add: p c combine_lookup)
qed

lemma set_prop_filter:
  "lowercase k \<noteq> x \<Longrightarrow>
   filter (\<lambda>(k', v'). lowercase k' = x) (set_prop k v ps) =
   filter (\<lambda>(k', v'). lowercase k' = x) ps"
  by (induction ps) auto

lemma spread_filter:
  "\<forall>k \<in> fst ` set src. lowercase k \<noteq> x \<Longrightarrow>
   filter (\<lambda>(k', v'). lowercase k' = x) (spread obj src) =
   filter (\<lambda>(k', v'). lowercase k' = x) obj"
  unfolding spread_def
proof (induction src arbitrary: obj)
  case Nil
  then show ?case by simp
next
  case (Cons p src)
  obtain k v where p: "p = (k, v)" by (cases p)
  from Cons.prems have k: "lowercase k \<noteq> x" and rest: "\<forall>k \<in> fst ` set src. lowercase k \<noteq> x"
    by (auto simp: p)
  from Cons.IH [OF rest, of "set_prop k v obj"] set_prop_filter [OF k, of v obj]
  show ?case by (simp add: p)
qed

lemma Headers_delete_lookup:
  "map_of (Headers_delete y hs) x = (if x = lowercase y then None else map_of hs x)"
  unfolding Headers_delete_def by (induction hs) auto

lemma normalize_bearer:
  "t \<noteq> [] \<Longrightarrow> \<not> is_http_whitespace (last t) \<Longrightarrow>
   normalize_value (''Bearer '' @ t) = ''Bearer '' @ t"
  by (cases t rule: rev_cases) (simp_all add: normalize_value_def is_http_whitespace_def)

lemma request_headers_authorization:
  assumes "\<forall>k \<in> fst ` set (headers options). lowercase k \<noteq> ''authorization''"
    and "request_headers tok options = Inr hs"
  shows "Headers_get ''Authorization'' hs =
           (case tok of None \<Rightarrow> None
            | Some t \<Rightarrow> if t = [] then None else Some (normalize_value (''Bearer '' @ t)))"
proof -
  let ?P = "\<lambda>(k, v). lowercase k = ''authorization''"
  let ?obj = "spread (spread [(''Content-Type'', ''application/json'')] (bearer tok))
                (headers options)"
  have base: "filter ?P (spread [(''Content-Type'', ''application/json'')] (bearer tok)) =
      (case tok of None \<Rightarrow> []
       | Some t \<Rightarrow> if t = [] then [] else [(''Authorization'', ''Bearer '' @ t)])"
    by (simp add: spread_def bearer_def lowercase_Content_Type lowercase_Authorization
        split: option.splits)
  have "filter ?P ?obj = filter ?P (spread [(''Content-Type'', ''application/json'')] (bearer tok))"
    using assms(1) by (rule spread_filter)
  with base have obj: "filter ?P ?obj =
      (case tok of None \<Rightarrow> []
       | Some t \<Rightarrow> if t = [] then [] else [(''Authorization'', ''Bearer '' @ t)])"
    by simp
  from assms(2) obtain h0 where h0: "fill ?obj [] = Inr h0"
    and hs: "hs = (if body options = FormData then Headers_delete ''Content-Type'' h0 else h0)"
    by (auto simp: request_headers_def new_Headers_def split: sum.splits)
  have new: "map_of h0 ''authorization'' =
      (case tok of None \<Rightarrow> None
       | Some t \<Rightarrow> if t = [] then None else Some (normalize_value (''Bearer '' @ t)))"
    unfolding fill_lookup [OF h0] obj by (simp split: option.splits)
  show ?thesis
    by (simp add: Headers_get_def hs Headers_delete_lookup new
        lowercase_Authorization lowercase_Content_Type)
qed

text \<open>
  C10. A call reads the credential slot exactly once, as its first effect; every fetch of
  the call, first attempt or retry, sends the headers computed from that one read; and
  what the slot holds later, during the waits, does not change anything the call does.
\<close>

theorem headers_captured_once:
  "reads (snd (request storage transport options)) = 1
   \<and> hd (snd (request storage transport options)) = GetItem ''token''
   \<and> (\<forall>hs \<in> set (sent_headers (snd (request storage transport options))).
         request_headers (storage 0) options = Inr hs)
   \<and> (storage' 0 = storage 0 \<longrightarrow>
         request storage' transport options = request storage transport options)"
proof -
  have "request storage' transport options = request storage transport options"
    if "storage' 0 = storage 0"
    using that by (simp add: request_def)
  then show ?thesis
    using request_reads [of storage transport options]
      request_first_effect [of storage transport options]
      request_sent_headers [of _ storage transport options] by blast
qed

theorem headers_captured_once_witness:
  "changing (Some ''T'') None 0 = stored (Some ''T'') 0
   \<and> changing (Some ''T'') None 1 = None
   \<and> sent_headers (snd (request (changing (Some ''T'') None)
        (script [Stalls] (Responds \<lparr>status = 200, json_body = Json (JObj [])\<rparr>)) default_options))
      = [[(''content-type'', ''application/json''), (''authorization'', ''Bearer T'')],
         [(''content-type'', ''application/json''), (''authorization'', ''Bearer T'')]]
   \<and> reads (snd (request (changing (Some ''T'') None)
        (script [Stalls] (Responds \<lparr>status = 200, json_body = Json (JObj [])\<rparr>)) default_options)) = 1
   \<and> request (changing (Some ''T'') None)
        (script [Stalls] (Responds \<lparr>status = 200, json_body = Json (JObj [])\<rparr>)) default_options
     = request (stored (Some ''T''))
        (script [Stalls] (Responds \<lparr>status = 200, json_body = Json (JObj [])\<rparr>)) default_options"
proof -
  let ?t = "script [Stalls] (Responds \<lparr>status = 200, json_body = Json (JObj [])\<rparr>)"
  have a: "changing (Some ''T'') None 0 = stored (Some ''T'') 0"
    by (simp add: changing_def stored_def)
  have b: "changing (Some ''T'') None 1 = None"
    by (simp add: changing_def)
  have c: "sent_headers (snd (request (stored (Some ''T'')) ?t default_options))
      = [[(''content-type'', ''application/json''), (''authorization'', ''Bearer T'')],
         [(''content-type'', ''application/json''), (''authorization'', ''Bearer T'')]]"
    by (simp add: request_with_T attempts.simps script_def
        try_fetch_def handleResponse_def ok_def abort_error_def is_failed_to_fetch_def after_def)
  show ?thesis
    using headers_captured_once [where storage = "stored (Some ''T'')"
        and storage' = "changing (Some ''T'') None" and transport = ?t
        and options = default_options] a b c
    by simp
qed

text \<open>
  C8, as the code has it. When the caller's own headers do not name \<^verbatim>\<open>Authorization\<close>
  (in any letter case), every fetch of the call carries \<^verbatim>\<open>Authorization: Bearer <token>\<close>
  if the slot holds a non-empty token that does not end in whitespace; for a token that
  ends in whitespace the value is stripped of it; and no fetch carries an
  \<^verbatim>\<open>Authorization\<close> header if the slot is empty or holds the empty string. When the token
  or a header of the caller is not valid header text, \<^verbatim>\<open>new Headers\<close> throws and the call
  rejects without any fetch.
\<close>

theorem bearer_header:
  assumes "\<forall>k \<in> fst ` set (headers options). lowercase k \<noteq> ''authorization''"
  shows "(\<forall>hs \<in> set (sent_headers (snd (request storage transport options))).
            Headers_get ''Authorization'' hs =
              (case storage 0 of
                 None \<Rightarrow> None
               | Some t \<Rightarrow>
                   if t = [] then None
                   else if is_http_whitespace (last t)
                     then Some (normalize_value (''Bearer '' @ t))
                   else Some (''Bearer '' @ t)))
       \<and> (\<forall>e. request_headers (storage 0) options = Inl e \<longrightarrow>
             request storage transport options = (Rejected (Some e), [GetItem ''token'']))"
proof -
  have "Headers_get ''Authorization'' hs =
              (case storage 0 of
                 None \<Rightarrow> None
               | Some t \<Rightarrow>
                   if t = [] then None
                   else if is_http_whitespace (last t)
                     then Some (normalize_value (''Bearer '' @ t))
                   else Some (''Bearer '' @ t))"
    if sent: "hs \<in> set (sent_headers (snd (request storage transport options)))" for hs
  proof -
    note r = request_headers_authorization [OF assms request_sent_headers [OF sent]]
    show ?thesis
    proof (cases "storage 0")
      case None
      with r show ?thesis by simp
    next
      case (Some t)
      show ?thesis
      proof (cases "t = [] \<or> is_http_whitespace (last t)")
        case True
        with r Some show ?thesis by auto
      next
        case False
        then have "normalize_value (''Bearer '' @ t) = ''Bearer '' @ t"
          by (intro normalize_bearer) simp_all
        with r Some False show ?thesis by simp
      qed
    qed
  qed
  then show ?thesis by (simp add: request_invalid)
qed

theorem bearer_header_witness:
  "sent_headers (snd (request (stored (Some ''T''))
      (always (Responds \<lparr>status = 200, json_body = Json (JObj [])\<rparr>))
      (default_options\<lparr>headers := [(''X-Requested-With'', ''app'')], body := FormData\<rparr>)))
     = [[(''authorization'', ''Bearer T''), (''x-requested-with'', ''app'')]]
   \<and> Headers_get ''Authorization'' [(''authorization'', ''Bearer T''), (''x-requested-with'', ''app'')]
     = Some ''Bearer T''
   \<and> sent_headers (snd (request (stored None)
      (always (Responds \<lparr>status = 200, json_body = Json (JObj [])\<rparr>))
      (default_options\<lparr>headers := [(''X-Requested-With'', ''app'')], body := FormData\<rparr>)))
     = [[(''x-requested-with'', ''app'')]]
   \<and> Headers_get ''Authorization'' [(''x-requested-with'', ''app'')] = None
   \<and> request (stored (Some [CHR ''a'', CHR 0x0A, CHR ''b'']))
      (always (Responds \<lparr>status = 200, json_body = Json (JObj [])\<rparr>))
      (default_options\<lparr>headers := [(''X-Requested-With'', ''app'')], body := FormData\<rparr>)
     = (Rejected (Some (JsError TypeError invalid_value_message)), [GetItem ''token''])"
proof -
  let ?o = "default_options\<lparr>headers := [(''X-Requested-With'', ''app'')], body := FormData\<rparr>"
  let ?t = "always (Responds \<lparr>status = 200, json_body = Json (JObj [])\<rparr>)"
  have lx: "lowercase ''X-Requested-With'' = ''x-requested-with''"
    by (simp add: lowercase_def lower_char_def)
  have a: "\<forall>k \<in> fst ` set (headers ?o). lowercase k \<noteq> ''authorization''"
    by (simp add: lx)
  have lim: "retry_limit ?o = 3"
    "(case timeout ?o of None \<Rightarrow> REQUEST_TIMEOUT | Some t \<Rightarrow> t) = 30000"
    by (simp_all add: retry_limit_def default_options_def MAX_RETRIES_def REQUEST_TIMEOUT_def)
  have h1: "request_headers (stored (Some ''T'') 0) ?o =
      Inr [(''authorization'', ''Bearer T''), (''x-requested-with'', ''app'')]"
    by (simp add: stored_def request_headers_def default_options_def bearer_def spread_def
        new_Headers_def Headers_append_def valid_name_def valid_value_def is_tchar_def
        normalize_value_def is_http_whitespace_def Headers_delete_def
        lowercase_Content_Type lowercase_Authorization lx)
  have h2: "request_headers (stored None 0) ?o = Inr [(''x-requested-with'', ''app'')]"
    by (simp add: stored_def request_headers_def default_options_def bearer_def spread_def
        new_Headers_def Headers_append_def valid_name_def valid_value_def is_tchar_def
        normalize_value_def is_http_whitespace_def Headers_delete_def
        lowercase_Content_Type lowercase_Authorization lx)
  have h3: "request_headers (stored (Some [CHR ''a'', CHR 0x0A, CHR ''b'']) 0) ?o =
      Inl (JsError TypeError invalid_value_message)"
    by (simp add: stored_def request_headers_def default_options_def bearer_def spread_def
        new_Headers_def Headers_append_def valid_name_def valid_value_def is_tchar_def
        normalize_value_def is_http_whitespace_def
        lowercase_Content_Type lowercase_Authorization lx)
  have s1: "sent_headers (snd (request (stored (Some ''T'')) ?t ?o)) =
      [[(''authorization'', ''Bearer T''), (''x-requested-with'', ''app'')]]"
    by (simp add: request_unfold [where storage = "stored (Some ''T'')", OF h1] lim
        attempts.simps always_apply try_fetch_def handleResponse_def ok_def after_def)
  have s2: "sent_headers (snd (request (stored None) ?t ?o)) = [[(''x-requested-with'', ''app'')]]"
    by (simp add: request_unfold [where storage = "stored None", OF h2] lim
        attempts.simps always_apply try_fetch_def handleResponse_def ok_def after_def)
  show ?thesis
    using bearer_header [OF a, of "stored (Some ''T'')" ?t]
      bearer_header [OF a, of "stored None" ?t]
      bearer_header [OF a, of "stored (Some [CHR ''a'', CHR 0x0A, CHR ''b''])" ?t] s1 s2 h3
    by (simp add: stored_def is_http_whitespace_def)
qed

text \<open>
  C8 as stated fails for a caller that passes its own \<^verbatim>\<open>Authorization\<close>: the spread of
  line 59 lets it replace the bearer token. And a stored token that ends in a space is not
  sent as it is stored.
\<close>

theorem bearer_header_counterexample:
  "sent_headers (snd (request (stored (Some ''T''))
      (always (Responds \<lparr>status = 200, json_body = Json (JObj [])\<rparr>))
      (default_options\<lparr>headers := [(''Authorization'', ''Basic abc'')]\<rparr>)))
     = [[(''content-type'', ''application/json''), (''authorization'', ''Basic abc'')]]
   \<and> Headers_get ''Authorization''
        [(''content-type'', ''application/json''), (''authorization'', ''Basic abc'')]
     = Some ''Basic abc''
   \<and> sent_headers (snd (request (stored (Some ''T ''))
      (always (Responds \<lparr>status = 200, json_body = Json (JObj [])\<rparr>)) default_options))
     = [[(''content-type'', ''application/json''), (''authorization'', ''Bearer T'')]]"
proof -
  let ?o = "default_options\<lparr>headers := [(''Authorization'', ''Basic abc'')]\<rparr>"
  let ?t = "always (Responds \<lparr>status = 200, json_body = Json (JObj [])\<rparr>)"
  have lim: "retry_limit ?o = 3"
    "(case timeout ?o of None \<Rightarrow> REQUEST_TIMEOUT | Some t \<Rightarrow> t) = 30000"
    by (simp_all add: retry_limit_def default_options_def MAX_RETRIES_def REQUEST_TIMEOUT_def)
  have h: "request_headers (stored (Some ''T'') 0) ?o =
      Inr [(''content-type'', ''application/json''), (''authorization'', ''Basic abc'')]"
    by (simp add: stored_def request_headers_def default_options_def bearer_def spread_def
        new_Headers_def Headers_append_def valid_name_def valid_value_def is_tchar_def
        normalize_value_def is_http_whitespace_def
        lowercase_Content_Type lowercase_Authorization)
  have h': "request_headers (stored (Some ''T '') 0) default_options =
      Inr [(''content-type'', ''application/json''), (''authorization'', ''Bearer T'')]"
    by (simp add: stored_def request_headers_def default_options_def bearer_def spread_def
        new_Headers_def Headers_append_def valid_name_def valid_value_def is_tchar_def
        normalize_value_def is_http_whitespace_def
        lowercase_Content_Type lowercase_Authorization)
  have s: "sent_headers (snd (request (stored (Some ''T'')) ?t ?o)) =
      [[(''content-type'', ''application/json''), (''authorization'', ''Basic abc'')]]"
    by (simp add: request_unfold [where storage = "stored (Some ''T'')", OF h] lim
        attempts.simps always_apply try_fetch_def handleResponse_def ok_def after_def)
  have s': "sent_headers (snd (request (stored (Some ''T '')) ?t default_options)) =
      [[(''content-type'', ''application/json''), (''authorization'', ''Bearer T'')]]"
    by (simp add: request_unfold [where storage = "stored (Some ''T '')", OF h'] default_limits
        attempts.simps always_apply try_fetch_def handleResponse_def ok_def after_def)
  show ?thesis
    using s s' by (simp add: Headers_get_def lowercase_Authorization)
qed

section \<open>The session across a logout\<close>

lemma getCurrentUser_resolves:
  "getCurrentUser tok transport = Inr (fetched_user tok transport)"
  by (simp add: fetched_user_def getCurrentUser_def split: settled.splits)

lemma profile_fetched:
  "fetched_user (Some ''T'')
     (always (Responds \<lparr>status = 200, json_body = Json (JObj [(''id'', JStr ''u1'')])\<rparr>))
   = JObj [(''id'', JStr ''u1'')]"
proof -
  show ?thesis
    by (simp add: fetched_user_def getCurrentUser_def authUtils_isAuthenticated_def
        getProfile_def request_with_T attempts.simps always_apply
        try_fetch_def handleResponse_def ok_def after_def)
qed

text \<open>
  C6, as the code has it. The outcome of a \<^verbatim>\<open>checkAuth\<close> that is in flight when
  \<^verbatim>\<open>logout\<close> clears the credential is not ignored: when it resumes after the logout it
  overwrites \<^verbatim>\<open>user\<close>, \<^verbatim>\<open>isAuthenticated\<close> and \<^verbatim>\<open>loading\<close> with what its own request
  fetched, so a fetched profile makes the session authenticated again, while the slot
  stays empty.
\<close>

theorem stale_check_overwrites:
  assumes "k < length (pending s)"
  shows "\<exists>s'. run [Call_logout, Resume_checkAuth k transport] s = Some s'
           \<and> user (auth s') = fetched_user (pending s ! k) transport
           \<and> isAuthenticated (auth s') = truthy (fetched_user (pending s ! k) transport)
           \<and> loading (auth s') = False
           \<and> localStorage_token s' = None"
  using assms
  by (simp add: logout_def checkAuth_settle_def getCurrentUser_resolves)

theorem stale_check_overwrites_witness:
  "run [Call_logout,
        Resume_checkAuth 0
          (always (Responds \<lparr>status = 200, json_body = Json (JObj [(''id'', JStr ''u1'')])\<rparr>))]
     \<lparr>auth = \<lparr>user = JNull, loading = True, error = None, isAuthenticated = False\<rparr>,
        localStorage_token = Some ''T'', pending = [Some ''T''], navigations = []\<rparr>
   = Some \<lparr>auth = \<lparr>user = JObj [(''id'', JStr ''u1'')], loading = False, error = None,
                    isAuthenticated = True\<rparr>,
           localStorage_token = None, pending = [], navigations = [''/'']\<rparr>"
proof -
  let ?s = "\<lparr>auth = \<lparr>user = JNull, loading = True, error = None, isAuthenticated = False\<rparr>,
             localStorage_token = Some ''T'', pending = [Some ''T''], navigations = []\<rparr>"
  have a: "0 < length (pending ?s)" by simp
  show ?thesis
    using stale_check_overwrites [OF a,
        of "always (Responds \<lparr>status = 200, json_body = Json (JObj [(''id'', JStr ''u1'')])\<rparr>)"]
      profile_fetched
    by (simp add: logout_def begin_operation_def set_anonymous_def checkAuth_settle_def
        getCurrentUser_resolves ROUTES_HOME_def)
qed

text \<open>
  C6 as stated fails: a check starts with the token \<^verbatim>\<open>T\<close>, the user logs out, the
  profile arrives.
\<close>

theorem stale_check_counterexample:
  "run [Call_checkAuth, Call_logout,
        Resume_checkAuth 0
          (always (Responds \<lparr>status = 200, json_body = Json (JObj [(''id'', JStr ''u1'')])\<rparr>))]
     \<lparr>auth = initial_state, localStorage_token = Some ''T'', pending = [], navigations = []\<rparr>
   = Some \<lparr>auth = \<lparr>user = JObj [(''id'', JStr ''u1'')], loading = False, error = None,
                    isAuthenticated = True\<rparr>,
           localStorage_token = None, pending = [], navigations = [''/'']\<rparr>"
  using profile_fetched
  by (simp add: initial_state_def begin_operation_def set_anonymous_def
      authUtils_isAuthenticated_def logout_def checkAuth_settle_def getCurrentUser_resolves
      ROUTES_HOME_def)

text \<open>
  C7. With a credential stored and a profile request that fails (here a 401 on every
  attempt), \<^verbatim>\<open>checkAuth\<close> ends anonymous and leaves the credential in place, but stores
  no error message: \<^verbatim>\<open>getCurrentUser\<close> has turned the rejection into \<^verbatim>\<open>null\<close>, so the
  \<^verbatim>\<open>catch\<close> of \<^verbatim>\<open>checkAuth\<close> that would store the message is never entered.
\<close>

theorem checkAuth_failure_stores_no_error:
  "checkAuth
     (always (Responds \<lparr>status = 401,
        json_body = Json (JObj [(''detail'', JStr ''Invalid token.'')])\<rparr>))
     \<lparr>auth = initial_state, localStorage_token = Some ''T'', pending = [], navigations = []\<rparr>
   = \<lparr>auth = \<lparr>user = JNull, loading = False, error = None, isAuthenticated = False\<rparr>,
      localStorage_token = Some ''T'', pending = [], navigations = []\<rparr>"
proof -
  have "getCurrentUser (Some ''T'')
      (always (Responds \<lparr>status = 401,
        json_body = Json (JObj [(''detail'', JStr ''Invalid token.'')])\<rparr>)) = Inr JNull"
    by (simp add: getCurrentUser_def authUtils_isAuthenticated_def
        getProfile_def request_with_T attempts.simps always_apply
        try_fetch_def handleResponse_def ok_def is_failed_to_fetch_def after_def)
  then show ?thesis
    by (simp add: checkAuth_def initial_state_def begin_operation_def
        authUtils_isAuthenticated_def checkAuth_settle_def)
qed

end
